theory Spec2Isabelle
  imports Main "HOL-Library.Sublist"
begin

section \<open>The Chrome launcher: data model\<close>

text \<open>
  The embedding follows \<^verbatim>\<open>src/chrome-launcher/chrome-launcher.ts\<close>. The launcher is
  stateful and talks to the operating system, so every method takes the instance and a
  world and returns both updated. The world records, in order, every call the code makes
  to a collaborator (network, filesystem, child process, logger); what the collaborators
  answer is fixed by an environment. Promises have three outcomes: resolved, rejected,
  or never settled.

  The socket connection, the port source, the spawning of the subprocess, the writing of
  the pid file, the OS-level kill and the child's close notification can fail, as the
  environment says. \<^verbatim>\<open>makeTmpDir\<close>, \<^verbatim>\<open>fs.openSync\<close>, \<^verbatim>\<open>fs.closeSync\<close> and \<^verbatim>\<open>rimraf\<close> are
  taken to return normally.
\<close>

text \<open>The \<^verbatim>\<open>Options\<close> interface: every field is optional.\<close>

record options =
  o_startingUrl :: "string option"
  o_chromeFlags :: "string list option"
  o_port :: "nat option"
  o_handleSIGINT :: "bool option"
  o_chromePath :: "string option"

text \<open>
  The \<^verbatim>\<open>LaunchedChrome\<close> handle. The entry point builds it from \<^verbatim>\<open>instance.pid!\<close> and
  \<^verbatim>\<open>instance.port!\<close>; the \<^verbatim>\<open>!\<close> is erased at run time, so a field holds
  \<^verbatim>\<open>undefined\<close> (here \<open>None\<close>) whenever the instance's field does.
\<close>

record launched_chrome =
  lc_pid :: "nat option"
  lc_port :: "nat option"

text \<open>
  The part of a \<^verbatim>\<open>ChildProcess\<close> the launcher reads. \<^verbatim>\<open>child_process.spawn\<close> returns a
  child also when the executable cannot be started; its \<^verbatim>\<open>pid\<close> is then \<^verbatim>\<open>undefined\<close>.
\<close>

record child_process =
  cp_pid :: "nat option"

text \<open>The private and public fields of the class \<^verbatim>\<open>Launcher\<close>.\<close>

record launcher =
  tmpDirandPidFileReady :: bool
  pollInterval :: nat
  pidFile :: "string option"
  startingUrl :: string
  TMP_PROFILE_DIR :: "string option"
  outFile :: "nat option"
  errFile :: "nat option"
  chromePath :: "string option"
  chromeFlags :: "string list"
  chrome :: "child_process option"
  requestedPort :: nat
  port :: "nat option"
  pid :: "nat option"

text \<open>
  Values a promise is rejected with: an \<^verbatim>\<open>Error\<close> made by the launcher (with its
  message), the error object of a socket's \<^verbatim>\<open>error\<close> event, or the \<^verbatim>\<open>TypeError\<close> of
  calling an absent property of the finder module.
\<close>

datatype error = Error string | SocketError string | TypeError string

datatype 'a outcome = Resolved 'a | Rejected error | Pending

datatype conn = Connected | ConnError string

datatype event =
    LogLog string
  | LogVerbose string
  | LogWarn string
  | CreateConnection "nat option"
  | Cleanup
  | Delay nat
  | MakeTmpDir
  | OpenSync string string
  | FindChrome string
  | GetRandomPort
  | Spawn string "string list" "nat option" "nat option"
  | WriteFileSync "string option" string
  | OnClose "nat option"
  | ExecSync string
  | ProcessKill "int option"
  | ChildClosed "nat option"
  | CloseSync nat
  | Rimraf string
  | ProcessOn string

text \<open>
  The world: the calls made so far, and how many socket connections have been opened
  (the environment may answer each attempt differently).
\<close>

record world =
  events :: "event list"
  attempts :: nat

text \<open>
  The environment: \<^verbatim>\<open>process.platform\<close>, and the answers of the collaborators.
  \<open>spawnPid\<close> is the pid of the child that \<^verbatim>\<open>child_process.spawn\<close> returns for an
  executable path (\<open>None\<close> when it cannot be started); \<open>writeFileSync\<close> tells whether
  writing the file of that name returns normally; \<open>kill_throws\<close> is the message of what the
  OS-level termination of a pid throws, if it throws; \<open>reports_close\<close> tells whether the
  child of that pid emits \<^verbatim>\<open>close\<close> after \<^verbatim>\<open>kill\<close> has registered its listener.
  \<^verbatim>\<open>DEFAULT_FLAGS\<close> (module \<^verbatim>\<open>./flags\<close>), the finder functions keyed by platform (module
  \<^verbatim>\<open>./chrome-finder\<close>), \<^verbatim>\<open>getRandomPort\<close>, \<^verbatim>\<open>makeTmpDir\<close> and the logger's tick are not
  part of the file and are parameters.
\<close>

record env =
  platform :: string
  DEFAULT_FLAGS :: "string list"
  chromeFinder :: "string \<Rightarrow> string list option"
  getRandomPort :: "string + nat"
  makeTmpDir :: string
  openSync :: "string \<Rightarrow> nat"
  spawnPid :: "string \<Rightarrow> nat option"
  writeFileSync :: "string \<Rightarrow> bool"
  connect :: "nat \<Rightarrow> nat option \<Rightarrow> conn"
  kill_throws :: "nat option \<Rightarrow> string option"
  reports_close :: "nat option \<Rightarrow> bool"
  tick :: string

definition emit :: "event \<Rightarrow> world \<Rightarrow> world" where
  "emit e w = w\<lparr>events := events w @ [e]\<rparr>"

section \<open>Helpers\<close>

text \<open>
  Modelled from the spec: \<^verbatim>\<open>defaults\<close> of \<^verbatim>\<open>./utils\<close> is not part of the file; the spec
  calls it an optional-value-with-default helper.
\<close>

definition defaults :: "'a option \<Rightarrow> 'a \<Rightarrow> 'a" where
  "defaults v d = (case v of None \<Rightarrow> d | Some x \<Rightarrow> x)"

text \<open>Decimal rendering of a number, as a template string does for an integer.\<close>

definition digit :: "nat \<Rightarrow> char" where
  "digit n = ''0123456789'' ! n"

function show_nat :: "nat \<Rightarrow> string" where
  "show_nat n = (if n < 10 then [digit n] else show_nat (n div 10) @ [digit (n mod 10)])"
  by pat_completeness auto
termination
  by (relation "measure id") auto

declare show_nat.simps [simp del]

text \<open>A template string renders an absent value as \<^verbatim>\<open>undefined\<close>.\<close>

definition tpl_nat :: "nat option \<Rightarrow> string" where
  "tpl_nat v = (case v of None \<Rightarrow> ''undefined'' | Some n \<Rightarrow> show_nat n)"

definition tpl_str :: "string option \<Rightarrow> string" where
  "tpl_str v = (case v of None \<Rightarrow> ''undefined'' | Some s \<Rightarrow> s)"

definition SUPPORTED_PLATFORMS :: "string list" where
  "SUPPORTED_PLATFORMS = [''darwin'', ''linux'', ''win32'']"

definition isWindows :: "env \<Rightarrow> bool" where
  "isWindows en = (platform en = ''win32'')"

definition SIGINT :: string where
  "SIGINT = ''SIGINT''"

section \<open>The class Launcher\<close>

definition new_Launcher :: "options \<Rightarrow> launcher" where
  "new_Launcher opts =
     \<lparr> tmpDirandPidFileReady = False,
       pollInterval = 500,
       pidFile = None,
       startingUrl = defaults (o_startingUrl opts) ''about:blank'',
       TMP_PROFILE_DIR = None,
       outFile = None,
       errFile = None,
       chromePath = o_chromePath opts,
       chromeFlags = defaults (o_chromeFlags opts) [],
       chrome = None,
       requestedPort = defaults (o_port opts) 0,
       port = None,
       pid = None \<rparr>"

definition port_flag :: "nat option \<Rightarrow> string" where
  "port_flag p = ''--remote-debugging-port='' @ tpl_nat p"

definition dir_flag :: "string option \<Rightarrow> string" where
  "dir_flag d = ''--user-data-dir='' @ tpl_str d"

text \<open>The getter \<^verbatim>\<open>flags\<close>.\<close>

definition flags :: "env \<Rightarrow> launcher \<Rightarrow> string list" where
  "flags en L =
     (let fl = DEFAULT_FLAGS en @ [port_flag (port L), dir_flag (TMP_PROFILE_DIR L)];
          fl = (if platform en = ''linux'' then fl @ [''--disable-setuid-sandbox''] else fl);
          fl = fl @ chromeFlags L;
          fl = fl @ [startingUrl L]
      in fl)"

text \<open>\<^verbatim>\<open>prepare\<close>: throws on an unsupported platform, otherwise makes the workspace.\<close>

definition prepare :: "env \<Rightarrow> launcher \<Rightarrow> world \<Rightarrow> error + (launcher \<times> world)" where
  "prepare en L w =
     (if platform en \<notin> set SUPPORTED_PLATFORMS
      then Inl (Error (''Platform '' @ platform en @ '' is not supported''))
      else
        let w = emit MakeTmpDir w;
            L = L\<lparr>TMP_PROFILE_DIR := Some (makeTmpDir en)\<rparr>;
            outp = tpl_str (TMP_PROFILE_DIR L) @ ''/chrome-out.log'';
            w = emit (OpenSync outp ''a'') w;
            L = L\<lparr>outFile := Some (openSync en outp)\<rparr>;
            errp = tpl_str (TMP_PROFILE_DIR L) @ ''/chrome-err.log'';
            w = emit (OpenSync errp ''a'') w;
            L = L\<lparr>errFile := Some (openSync en errp)\<rparr>;
            L = L\<lparr>pidFile := Some (tpl_str (TMP_PROFILE_DIR L) @ ''/chrome.pid'')\<rparr>;
            w = emit (LogVerbose (''created '' @ tpl_str (TMP_PROFILE_DIR L))) w;
            L = L\<lparr>tmpDirandPidFileReady := True\<rparr>
        in Inr (L, w))"

text \<open>
  \<^verbatim>\<open>isDebuggerReady\<close>: one connection to \<^verbatim>\<open>this.port\<close>; the socket is cleaned up on either
  outcome. The promise resolves on \<^verbatim>\<open>connect\<close> and rejects with the socket's error.
\<close>

definition isDebuggerReady :: "env \<Rightarrow> launcher \<Rightarrow> world \<Rightarrow> conn \<times> world" where
  "isDebuggerReady en L w =
     (let r = connect en (attempts w) (port L);
          w = emit (CreateConnection (port L)) w;
          w = w\<lparr>attempts := attempts w + 1\<rparr>;
          w = emit Cleanup w
      in (r, w))"

text \<open>
  \<^verbatim>\<open>waitUntilReady\<close>: the inner function \<^verbatim>\<open>poll\<close>, with the closure variables \<^verbatim>\<open>retries\<close>
  and \<^verbatim>\<open>waitStatus\<close> as arguments.
\<close>

function poll :: "env \<Rightarrow> launcher \<Rightarrow> nat \<Rightarrow> string \<Rightarrow> world \<Rightarrow> unit outcome \<times> world" where
  "poll en L retries waitStatus w =
     (let w1 = (if retries = 0 then emit (LogLog waitStatus) w else w);
          retries' = retries + 1;
          waitStatus' = waitStatus @ ''..'';
          w2 = emit (LogLog waitStatus') w1;
          rw = isDebuggerReady en L w2
      in case fst rw of
           Connected \<Rightarrow> (Resolved (), emit (LogLog (waitStatus' @ tick en)) (snd rw))
         | ConnError err \<Rightarrow>
             if retries' > 10 then (Rejected (SocketError err), snd rw)
             else poll en L retries' waitStatus' (emit (Delay (pollInterval L)) (snd rw)))"
  by pat_completeness auto
termination
  by (relation "measure (\<lambda>(en, L, retries, waitStatus, w). 11 - retries)") auto

declare poll.simps [simp del]

definition waitUntilReady :: "env \<Rightarrow> launcher \<Rightarrow> world \<Rightarrow> unit outcome \<times> world" where
  "waitUntilReady en L w = poll en L 0 ''Waiting for browser.'' w"

text \<open>
  \<^verbatim>\<open>spawn\<close>, first part: the promise \<^verbatim>\<open>spawnPromise\<close>. Its executor is an \<^verbatim>\<open>async\<close>
  function that is given \<^verbatim>\<open>resolve\<close> only, so whatever is thrown or rejected inside it
  is lost and the promise never settles. That happens when \<^verbatim>\<open>getRandomPort\<close> rejects, when
  the child has no pid (\<^verbatim>\<open>chrome.pid.toString()\<close> throws, after \<^verbatim>\<open>this.chrome\<close> was
  assigned and before \<^verbatim>\<open>fs.writeFileSync\<close> is called), and when \<^verbatim>\<open>fs.writeFileSync\<close>
  throws, as it does for a path that is \<^verbatim>\<open>undefined\<close>.
\<close>

definition assignPort :: "env \<Rightarrow> launcher \<Rightarrow> world \<Rightarrow> launcher option \<times> world" where
  "assignPort en L w =
     (if requestedPort L = 0
      then (case getRandomPort en of
              Inl e \<Rightarrow> (None, emit GetRandomPort w)
            | Inr p \<Rightarrow> (Some (L\<lparr>port := Some p\<rparr>), emit GetRandomPort w))
      else (Some L, w))"

definition writes :: "env \<Rightarrow> string option \<Rightarrow> bool" where
  "writes en f = (case f of None \<Rightarrow> False | Some name \<Rightarrow> writeFileSync en name)"

definition spawnPromise ::
  "env \<Rightarrow> launcher \<Rightarrow> string \<Rightarrow> world \<Rightarrow> nat option outcome \<times> launcher \<times> world" where
  "spawnPromise en L execPath w =
     (case chrome L of
        Some c \<Rightarrow>
          (Resolved (cp_pid c), L,
           emit (LogLog (''Chrome already running with pid '' @ tpl_nat (cp_pid c) @ ''.'')) w)
      | None \<Rightarrow>
          (case assignPort en L w of
             (None, w0) \<Rightarrow> (Pending, L, w0)
           | (Some L1, w0) \<Rightarrow>
               (let w1 = emit (Spawn execPath (flags en L1) (outFile L1) (errFile L1)) w0;
                    c = \<lparr>cp_pid = spawnPid en execPath\<rparr>;
                    L2 = L1\<lparr>chrome := Some c\<rparr>
                in case cp_pid c of
                     None \<Rightarrow> (Pending, L2, w1)
                   | Some p \<Rightarrow>
                       (let w2 = emit (WriteFileSync (pidFile L2) (show_nat p)) w1
                        in if \<not> writes en (pidFile L2) then (Pending, L2, w2)
                           else
                             (let w3 = emit (LogVerbose (''Chrome running with pid '' @ show_nat p
                                               @ '' on port '' @ tpl_nat (port L2) @ ''.'')) w2
                              in (Resolved (Some p), L2, w3))))))"

text \<open>\<^verbatim>\<open>spawn\<close>: await the promise, then \<^verbatim>\<open>waitUntilReady\<close>, then return the pid.\<close>

definition spawn ::
  "env \<Rightarrow> launcher \<Rightarrow> string \<Rightarrow> world \<Rightarrow> nat option outcome \<times> launcher \<times> world" where
  "spawn en L execPath w =
     (case spawnPromise en L execPath w of
        (Resolved p, L1, w1) \<Rightarrow>
          (case waitUntilReady en L1 w1 of
             (Resolved u, w2) \<Rightarrow> (Resolved p, L1, w2)
           | (Rejected e, w2) \<Rightarrow> (Rejected e, L1, w2)
           | (Pending, w2) \<Rightarrow> (Pending, L1, w2))
      | (Rejected e, L1, w1) \<Rightarrow> (Rejected e, L1, w1)
      | (Pending, L1, w1) \<Rightarrow> (Pending, L1, w1))"

text \<open>
  \<^verbatim>\<open>launch\<close> (the method), in three parts. \<open>reuseCheck\<close> is the block guarded by
  \<^verbatim>\<open>this.requestedPort !== 0\<close>: it returns \<open>True\<close> when the method returns from inside
  the \<^verbatim>\<open>try\<close>.
\<close>

definition reuseCheck :: "env \<Rightarrow> launcher \<Rightarrow> world \<Rightarrow> bool \<times> launcher \<times> world" where
  "reuseCheck en L w =
     (if requestedPort L \<noteq> 0 then
        (let L1 = L\<lparr>port := Some (requestedPort L)\<rparr>
         in case isDebuggerReady en L1 w of
              (Connected, w1) \<Rightarrow> (True, L1, w1)
            | (ConnError err, w1) \<Rightarrow>
                (False, L1,
                 emit (LogLog (''No debugging port found on port '' @ tpl_nat (port L1)
                         @ '', launching a new Chrome.'')) w1))
      else (False, L, w))"

text \<open>
  The block guarded by \<^verbatim>\<open>this.chromePath === undefined\<close>. The finder is looked up in
  the module by the platform string; calling an absent entry is a \<^verbatim>\<open>TypeError\<close>.
\<close>

definition resolveChromePath ::
  "env \<Rightarrow> launcher \<Rightarrow> world \<Rightarrow> (error + launcher \<times> string) \<times> world" where
  "resolveChromePath en L w =
     (case chromePath L of
        Some p \<Rightarrow> (Inr (L, p), w)
      | None \<Rightarrow>
          (case chromeFinder en (platform en) of
             None \<Rightarrow> (Inl (TypeError ''chromeFinder[process.platform] is not a function''), w)
           | Some installations \<Rightarrow>
               (if length installations = 0
                then (Inl (Error ''No Chrome Installations Found''), emit (FindChrome (platform en)) w)
                else (Inr (L\<lparr>chromePath := Some (hd installations)\<rparr>, hd installations),
                      emit (FindChrome (platform en)) w))))"

definition Launcher_launch ::
  "env \<Rightarrow> launcher \<Rightarrow> world \<Rightarrow> unit outcome \<times> launcher \<times> world" where
  "Launcher_launch en L w =
     (case reuseCheck en L w of
        (True, L1, w1) \<Rightarrow> (Resolved (), L1, w1)
      | (False, L1, w1) \<Rightarrow>
          (case (if \<not> tmpDirandPidFileReady L1 then prepare en L1 w1 else Inr (L1, w1)) of
             Inl e \<Rightarrow> (Rejected e, L1, w1)
           | Inr (L2, w2) \<Rightarrow>
               (case resolveChromePath en L2 w2 of
                  (Inl e, w3) \<Rightarrow> (Rejected e, L2, w3)
                | (Inr (L3, execPath), w3) \<Rightarrow>
                    (case spawn en L3 execPath w3 of
                       (Resolved p, L4, w4) \<Rightarrow> (Resolved (), L4\<lparr>pid := p\<rparr>, w4)
                     | (Rejected e, L4, w4) \<Rightarrow> (Rejected e, L4, w4)
                     | (Pending, L4, w4) \<Rightarrow> (Pending, L4, w4)))))"

text \<open>
  \<^verbatim>\<open>destroyTmp\<close>. A falsy \<^verbatim>\<open>TMP_PROFILE_DIR\<close> is \<^verbatim>\<open>undefined\<close> or the empty string; a falsy
  descriptor is \<^verbatim>\<open>undefined\<close> or 0. The promise always resolves.
\<close>

definition truthy_str :: "string option \<Rightarrow> bool" where
  "truthy_str v = (case v of None \<Rightarrow> False | Some s \<Rightarrow> s \<noteq> [])"

text \<open>The guarded \<^verbatim>\<open>fs.closeSync\<close> of a descriptor field; \<open>True\<close> when the field is to be deleted.\<close>

definition closeIfOpen :: "nat option \<Rightarrow> world \<Rightarrow> bool \<times> world" where
  "closeIfOpen fd w =
     (case fd of
        None \<Rightarrow> (False, w)
      | Some n \<Rightarrow> (if n \<noteq> 0 then (True, emit (CloseSync n) w) else (False, w)))"

definition destroyTmp :: "env \<Rightarrow> launcher \<Rightarrow> world \<Rightarrow> launcher \<times> world" where
  "destroyTmp en L w =
     (if \<not> truthy_str (TMP_PROFILE_DIR L) then (L, w)
      else
        (let w1 = emit (LogVerbose (''Removing '' @ tpl_str (TMP_PROFILE_DIR L))) w;
             cw2 = closeIfOpen (outFile L) w1;
             L2 = (if fst cw2 then L\<lparr>outFile := None\<rparr> else L);
             cw3 = closeIfOpen (errFile L2) (snd cw2);
             L3 = (if fst cw3 then L2\<lparr>errFile := None\<rparr> else L2)
         in (L3, emit (Rimraf (tpl_str (TMP_PROFILE_DIR L3))) (snd cw3))))"

text \<open>
  \<^verbatim>\<open>kill\<close>. \<open>kill_executor\<close> is the promise's executor, which runs at once: with a
  subprocess it registers the \<^verbatim>\<open>close\<close> listener, tries the OS-level termination (logging
  what it throws) and deletes \<^verbatim>\<open>this.chrome\<close>; it returns the pid whose \<^verbatim>\<open>close\<close> the
  promise now waits for, or \<open>None\<close> when it has resolved already. \<open>kill_on_close\<close> is
  the listener: it runs when the subprocess reports \<^verbatim>\<open>close\<close>. The pid is the child's, which
  is \<^verbatim>\<open>undefined\<close> for a child that could not be started: the command line then reads
  \<^verbatim>\<open>undefined\<close> and \<^verbatim>\<open>process.kill\<close> is given \<^verbatim>\<open>NaN\<close> (here \<open>None\<close>).
\<close>

definition kill_command :: "env \<Rightarrow> nat option \<Rightarrow> event" where
  "kill_command en p =
     (if isWindows en then ExecSync (''taskkill /pid '' @ tpl_nat p @ '' /T /F'')
      else ProcessKill (map_option (\<lambda>n. - int n) p))"

definition kill_executor ::
  "env \<Rightarrow> launcher \<Rightarrow> world \<Rightarrow> nat option option \<times> launcher \<times> world" where
  "kill_executor en L w =
     (case chrome L of
        Some c \<Rightarrow>
          (let w1 = emit (OnClose (cp_pid c)) w;
               w2 = emit (LogLog ''Killing all Chrome Instances'') w1;
               w3 = emit (kill_command en (cp_pid c)) w2;
               w4 = (case kill_throws en (cp_pid c) of
                       Some msg \<Rightarrow> emit (LogWarn (''Chrome could not be killed '' @ msg)) w3
                     | None \<Rightarrow> w3)
           in (Some (cp_pid c), L\<lparr>chrome := None\<rparr>, w4))
      | None \<Rightarrow> (None, L, w))"

definition kill_on_close ::
  "env \<Rightarrow> nat option \<Rightarrow> launcher \<Rightarrow> world \<Rightarrow> launcher \<times> world" where
  "kill_on_close en p L w = destroyTmp en L (emit (ChildClosed p) w)"

definition kill :: "env \<Rightarrow> launcher \<Rightarrow> world \<Rightarrow> unit outcome \<times> launcher \<times> world" where
  "kill en L w =
     (case kill_executor en L w of
        (None, L1, w1) \<Rightarrow> (Resolved (), L1, w1)
      | (Some p, L1, w1) \<Rightarrow>
          (if reports_close en p
           then (case kill_on_close en p L1 w1 of (L2, w2) \<Rightarrow> (Resolved (), L2, w2))
           else (Pending, L1, w1)))"

section \<open>The entry point\<close>

text \<open>
  \<^verbatim>\<open>launch\<close> (the exported function). It assigns to \<^verbatim>\<open>opts.handleSIGINT\<close>, so the options
  object is part of the state it returns.
\<close>

definition launch ::
  "env \<Rightarrow> options \<Rightarrow> world \<Rightarrow> launched_chrome outcome \<times> options \<times> launcher \<times> world" where
  "launch en opts w =
     (let opts1 = opts\<lparr>o_handleSIGINT := Some (defaults (o_handleSIGINT opts) True)\<rparr>;
          instance = new_Launcher opts1;
          w1 = (if o_handleSIGINT opts1 = Some True then emit (ProcessOn SIGINT) w else w)
      in case Launcher_launch en instance w1 of
           (Resolved u, L, w2) \<Rightarrow> (Resolved \<lparr>lc_pid = pid L, lc_port = port L\<rparr>, opts1, L, w2)
         | (Rejected e, L, w2) \<Rightarrow> (Rejected e, opts1, L, w2)
         | (Pending, L, w2) \<Rightarrow> (Pending, opts1, L, w2))"

text \<open>A world in which nothing has been recorded yet and \<open>a\<close> connections were opened before.\<close>

definition start :: "nat \<Rightarrow> world" where
  "start a = \<lparr>events = [], attempts = a\<rparr>"

section \<open>Reading the record of calls\<close>

text \<open>Socket connections, and the connections and delays together.\<close>

fun is_probe :: "event \<Rightarrow> bool" where
  "is_probe (CreateConnection p) = True"
| "is_probe _ = False"


text \<open>The calls \<^verbatim>\<open>waitUntilReady\<close> can make.\<close>

fun polling_event :: "event \<Rightarrow> bool" where
  "polling_event (LogLog s) = True"
| "polling_event (CreateConnection p) = True"
| "polling_event Cleanup = True"
| "polling_event (Delay d) = True"
| "polling_event _ = False"

text \<open>The calls that make the workspace: the temporary directory, the log files, the pid file.\<close>

fun creates_file :: "event \<Rightarrow> bool" where
  "creates_file MakeTmpDir = True"
| "creates_file (OpenSync f m) = True"
| "creates_file (WriteFileSync f s) = True"
| "creates_file _ = False"

fun is_Spawn :: "event \<Rightarrow> bool" where
  "is_Spawn (Spawn x fl a b) = True"
| "is_Spawn _ = False"

fun is_LogWarn :: "event \<Rightarrow> bool" where
  "is_LogWarn (LogWarn s) = True"
| "is_LogWarn _ = False"

fun is_FindChrome :: "event \<Rightarrow> bool" where
  "is_FindChrome (FindChrome pf) = True"
| "is_FindChrome _ = False"

text \<open>The flag sequences of the subprocesses spawned, in order.\<close>

fun spawned_flags :: "event list \<Rightarrow> string list list" where
  "spawned_flags [] = []"
| "spawned_flags (Spawn x fl a b # es) = fl # spawned_flags es"
| "spawned_flags (e # es) = spawned_flags es"


text \<open>A flag that sets the debugging port, whatever the port.\<close>

definition is_port_flag :: "string \<Rightarrow> bool" where
  "is_port_flag s = prefix ''--remote-debugging-port='' s"

text \<open>
  The flag sequence as the specification orders it, for the options \<open>opts\<close> and the port
  \<open>p\<close>: default flags, debugging port, user data directory, the sandbox flag on Linux,
  the caller's flags, the starting URL.
\<close>

definition assembled_flags :: "env \<Rightarrow> options \<Rightarrow> nat option \<Rightarrow> string list" where
  "assembled_flags en opts p =
     DEFAULT_FLAGS en
     @ [port_flag p]
     @ [dir_flag (Some (makeTmpDir en))]
     @ (if platform en = ''linux'' then [''--disable-setuid-sandbox''] else [])
     @ defaults (o_chromeFlags opts) []
     @ [defaults (o_startingUrl opts) ''about:blank'']"

text \<open>
  What \<^verbatim>\<open>kill\<close> records with a subprocess \<open>c\<close>: the termination attempt, and the teardown
  of the workspace of the instance \<open>L\<close>.
\<close>

definition termination_events :: "env \<Rightarrow> child_process \<Rightarrow> event list" where
  "termination_events en c =
     [OnClose (cp_pid c), LogLog ''Killing all Chrome Instances'', kill_command en (cp_pid c)]
     @ (case kill_throws en (cp_pid c) of
          Some msg \<Rightarrow> [LogWarn (''Chrome could not be killed '' @ msg)]
        | None \<Rightarrow> [])"

definition close_events :: "nat option \<Rightarrow> event list" where
  "close_events fd = (case fd of None \<Rightarrow> [] | Some n \<Rightarrow> (if n \<noteq> 0 then [CloseSync n] else []))"

definition teardown_events :: "launcher \<Rightarrow> event list" where
  "teardown_events L =
     (case TMP_PROFILE_DIR L of
        None \<Rightarrow> []
      | Some d \<Rightarrow>
          (if d = [] then []
           else [LogVerbose (''Removing '' @ d)] @ close_events (outFile L)
                @ close_events (errFile L) @ [Rimraf d]))"

section \<open>Concrete environments and options\<close>

definition no_opts :: options where
  "no_opts = \<lparr> o_startingUrl = None, o_chromeFlags = None, o_port = None,
               o_handleSIGINT = None, o_chromePath = None \<rparr>"

text \<open>A Linux host with one installation, where every connection is refused.\<close>

definition linux_env :: env where
  "linux_env =
     \<lparr> platform = ''linux'',
       DEFAULT_FLAGS = [''--disable-translate'', ''--no-first-run''],
       chromeFinder = (\<lambda>pf. if pf = ''linux'' then Some [''/usr/bin/google-chrome''] else None),
       getRandomPort = Inr 9222,
       makeTmpDir = ''/tmp/lighthouse.1'',
       openSync = (\<lambda>f. if f = ''/tmp/lighthouse.1/chrome-out.log'' then 3 else 4),
       spawnPid = (\<lambda>x. if x = ''/usr/bin/google-chrome'' then Some 4242 else None),
       writeFileSync = (\<lambda>f. True),
       connect = (\<lambda>n p. ConnError ''ECONNREFUSED''),
       kill_throws = (\<lambda>p. None),
       reports_close = (\<lambda>p. True),
       tick = ''ok'' \<rparr>"

text \<open>An instance as a successful launch on that host leaves it: subprocess 4242 is running.\<close>

definition spawned_instance :: launcher where
  "spawned_instance =
     \<lparr> tmpDirandPidFileReady = True,
       pollInterval = 500,
       pidFile = Some ''/tmp/lighthouse.1/chrome.pid'',
       startingUrl = ''about:blank'',
       TMP_PROFILE_DIR = Some ''/tmp/lighthouse.1'',
       outFile = Some 3,
       errFile = Some 4,
       chromePath = Some ''/usr/bin/google-chrome'',
       chromeFlags = [],
       chrome = Some \<lparr>cp_pid = Some 4242\<rparr>,
       requestedPort = 0,
       port = Some 9222,
       pid = Some 4242 \<rparr>"

text \<open>The same host with a listener on every port.\<close>

definition listening_env :: env where
  "listening_env = linux_env\<lparr>connect := (\<lambda>n p. Connected)\<rparr>"

section \<open>Lemmas about the record of calls\<close>

lemma events_emit [simp]: "events (emit e w) = events w @ [e]"
  by (simp add: emit_def)

lemma attempts_emit [simp]: "attempts (emit e w) = attempts w"
  by (simp add: emit_def)


lemma isDebuggerReady_simp:
  "isDebuggerReady en L w =
     (connect en (attempts w) (port L),
      \<lparr>events = events w @ [CreateConnection (port L), Cleanup], attempts = attempts w + 1\<rparr>)"
  by (simp add: isDebuggerReady_def emit_def Let_def)






lemma spawn_alt:
  "spawn en L x w =
     (case spawnPromise en L x w of
        (Resolved p, L1, w1) \<Rightarrow>
          (case fst (waitUntilReady en L1 w1) of
             Resolved u \<Rightarrow> Resolved p | Rejected e \<Rightarrow> Rejected e | Pending \<Rightarrow> Pending,
           L1, snd (waitUntilReady en L1 w1))
      | (Rejected e, L1, w1) \<Rightarrow> (Rejected e, L1, w1)
      | (Pending, L1, w1) \<Rightarrow> (Pending, L1, w1))"
  by (simp add: spawn_def split: prod.splits outcome.splits)

lemmas launch_defs = launch_def Launcher_launch_def reuseCheck_def new_Launcher_def Let_def
      isDebuggerReady_simp start_def prepare_def resolveChromePath_def spawn_alt spawnPromise_def
      assignPort_def writes_def tpl_str_def emit_def


lemma poll_frame:
  "\<exists>pe. events (snd (poll en L r ws w)) = events w @ pe \<and> list_all polling_event pe"
proof (induction en L r ws w rule: poll.induct)
  case (1 en L retries waitStatus w)
  let ?w1 = "if retries = 0 then emit (LogLog waitStatus) w else w"
  let ?w2 = "emit (LogLog (waitStatus @ ''..'')) ?w1"
  let ?w3 = "snd (isDebuggerReady en L ?w2)"
  obtain l where ev3: "events ?w3 = events w @ l" and pl: "list_all polling_event l"
    by (cases "retries = 0") (simp_all add: isDebuggerReady_simp)
  show ?case
  proof (cases "fst (isDebuggerReady en L ?w2)")
    case Connected
    then have "snd (poll en L retries waitStatus w) = emit (LogLog (waitStatus @ ''..'' @ tick en)) ?w3"
      by (subst poll.simps) (simp add: Let_def)
    then show ?thesis using ev3 pl by simp
  next
    case (ConnError err)
    show ?thesis
    proof (cases "10 < retries + 1")
      case True
      with ConnError have "snd (poll en L retries waitStatus w) = ?w3"
        by (subst poll.simps) (simp add: Let_def)
      then show ?thesis using ev3 pl by simp
    next
      case False
      let ?w4 = "emit (Delay (pollInterval L)) ?w3"
      from False ConnError
      have step: "poll en L retries waitStatus w = poll en L (retries + 1) (waitStatus @ ''..'') ?w4"
        by (subst poll.simps) (simp add: Let_def)
      from "1.IH"[OF refl refl refl refl refl ConnError False]
      obtain pe where e: "events (snd (poll en L (retries + 1) (waitStatus @ ''..'') ?w4)) = events ?w4 @ pe"
        and p: "list_all polling_event pe"
        by blast
      have "events (snd (poll en L retries waitStatus w)) = events w @ (l @ [Delay (pollInterval L)] @ pe)"
        using step e ev3 by simp
      moreover have "list_all polling_event (l @ [Delay (pollInterval L)] @ pe)"
        using pl p by simp
      ultimately show ?thesis by blast
    qed
  qed
qed

lemma spawned_flags_append: "spawned_flags (xs @ ys) = spawned_flags xs @ spawned_flags ys"
  by (induction xs rule: spawned_flags.induct) simp_all

lemma spawned_flags_polling: "list_all polling_event pe \<Longrightarrow> spawned_flags pe = []"
  by (induction pe rule: spawned_flags.induct) simp_all

lemma wait_spawned_flags:
  "spawned_flags (events (snd (waitUntilReady en L w))) = spawned_flags (events w)"
  using poll_frame [of en L 0 "''Waiting for browser.''" w]
  by (auto simp: waitUntilReady_def spawned_flags_append spawned_flags_polling)

lemma wait_member:
  "\<not> polling_event e \<Longrightarrow>
     (e \<in> set (events (snd (waitUntilReady en L w)))) = (e \<in> set (events w))"
  using poll_frame [of en L 0 "''Waiting for browser.''" w]
  by (auto simp: waitUntilReady_def list_all_iff)

lemma destroyTmp_chrome: "chrome (fst (destroyTmp en L w)) = chrome L"
  by (simp add: destroyTmp_def Let_def)

lemma closeIfOpen_events: "events (snd (closeIfOpen fd w)) = events w @ close_events fd"
  by (simp add: closeIfOpen_def close_events_def split: option.splits)

lemma destroyTmp_events: "events (snd (destroyTmp en L w)) = events w @ teardown_events L"
  by (simp add: destroyTmp_def teardown_events_def Let_def truthy_str_def tpl_str_def
      closeIfOpen_events split: option.splits)

lemma kill_executor_chrome: "chrome (fst (snd (kill_executor en L w))) = None"
  by (simp add: kill_executor_def Let_def split: option.splits)

lemma kill_chrome: "chrome (fst (snd (kill en L w))) = None"
  by (cases "chrome L")
     (simp_all add: kill_def kill_executor_def kill_on_close_def Let_def destroyTmp_chrome
        split: prod.splits)

lemma kill_no_chrome: "chrome L = None \<Longrightarrow> kill en L w = (Resolved (), L, w)"
  by (simp add: kill_def kill_executor_def)

lemma teardown_events_chrome: "teardown_events (L\<lparr>chrome := x\<rparr>) = teardown_events L"
  by (simp add: teardown_events_def split: option.splits)

lemma kill_executor_some:
  "chrome L = Some c \<Longrightarrow>
     kill_executor en L w =
       (Some (cp_pid c), L\<lparr>chrome := None\<rparr>, w\<lparr>events := events w @ termination_events en c\<rparr>)"
  by (simp add: kill_executor_def termination_events_def emit_def Let_def split: option.splits)

lemma kill_some:
  "chrome L = Some c \<Longrightarrow>
     kill en L w =
       (if reports_close en (cp_pid c)
        then (Resolved (),
              destroyTmp en (L\<lparr>chrome := None\<rparr>)
                (emit (ChildClosed (cp_pid c)) (w\<lparr>events := events w @ termination_events en c\<rparr>)))
        else (Pending, L\<lparr>chrome := None\<rparr>, w\<lparr>events := events w @ termination_events en c\<rparr>))"
  by (simp add: kill_def kill_executor_some kill_on_close_def split: prod.splits)


lemma is_port_flag_port [simp]: "is_port_flag (port_flag p)"
  by (simp add: is_port_flag_def port_flag_def)

lemma is_port_flag_dir [simp]: "\<not> is_port_flag (dir_flag d)"
  by (simp add: is_port_flag_def dir_flag_def)

lemma is_port_flag_sandbox [simp]: "\<not> is_port_flag ''--disable-setuid-sandbox''"
  by (simp add: is_port_flag_def)


lemma show_nat_9222: "show_nat 9222 = ''9222''"
  by (simp add: show_nat.simps digit_def)

lemma show_nat_4242: "show_nat 4242 = ''4242''"
  by (simp add: show_nat.simps digit_def)

lemmas concrete_defs = listening_env_def linux_env_def no_opts_def spawned_instance_def defaults_def
  SUPPORTED_PLATFORMS_def SIGINT_def

lemma wait_connected:
  "connect en (attempts w) (port L) = Connected \<Longrightarrow>
     waitUntilReady en L w =
       (Resolved (),
        \<lparr>events = events w @ [LogLog ''Waiting for browser.'', LogLog ''Waiting for browser...'',
                               CreateConnection (port L), Cleanup,
                               LogLog (''Waiting for browser...'' @ tick en)],
         attempts = attempts w + 1\<rparr>)"
  by (simp add: waitUntilReady_def poll.simps[of en L 0] isDebuggerReady_simp Let_def emit_def)


lemma launch_collapse:
  "launch en opts w =
     (fst (launch en opts w), fst (snd (launch en opts w)),
      fst (snd (snd (launch en opts w))), snd (snd (snd (launch en opts w))))"
  by simp

lemma kill_collapse:
  "kill en L w = (fst (kill en L w), fst (snd (kill en L w)), snd (snd (kill en L w)))"
  by simp

lemma teardown_no_warn: "filter is_LogWarn (teardown_events L) = []"
  by (simp add: teardown_events_def close_events_def split: option.splits)

lemma termination_warn:
  "filter is_LogWarn (termination_events en c) =
     (case kill_throws en (cp_pid c) of
        Some msg \<Rightarrow> [LogWarn (''Chrome could not be killed '' @ msg)]
      | None \<Rightarrow> [])"
  by (simp add: termination_events_def kill_command_def split: option.splits)

section \<open>Readiness polling\<close>



section \<open>Reusing a debugger that already listens\<close>

text \<open>
  C2. With a non-zero requested port on which a listener accepts the connection, the
  launch resolves; the finder is never called, no workspace is made (no temporary
  directory, no log file, no pid file) and no subprocess is spawned. The single
  connection of the reuse check is all the launch does to the outside.
\<close>

theorem C2_reuse_path:
  assumes "o_port opts = Some p" and "p \<noteq> 0"
      and "connect en a (Some p) = Connected"
      and "launch en opts (start a) = (r, opts', L, w')"
  shows "(\<exists>h. r = Resolved h) \<and>
         filter is_FindChrome (events w') = [] \<and>
         filter creates_file (events w') = [] \<and>
         filter is_Spawn (events w') = [] \<and>
         TMP_PROFILE_DIR L = None \<and> outFile L = None \<and> errFile L = None \<and>
         pidFile L = None \<and> chrome L = None \<and>
         filter is_probe (events w') = [CreateConnection (Some p)]"
proof (cases "defaults (o_handleSIGINT opts) True")
  case True
  with assms show ?thesis
    by (auto simp: launch_defs defaults_def[of "Some p"])
next
  case False
  with assms show ?thesis
    by (auto simp: launch_defs defaults_def[of "Some p"])
qed

theorem C2_reuse_path_witness:
  "fst (launch listening_env (no_opts\<lparr>o_port := Some 9222\<rparr>) (start 0))
     = Resolved \<lparr>lc_pid = None, lc_port = Some 9222\<rparr> \<and>
   events (snd (snd (snd (launch listening_env (no_opts\<lparr>o_port := Some 9222\<rparr>) (start 0)))))
     = [ProcessOn ''SIGINT'', CreateConnection (Some 9222), Cleanup] \<and>
   TMP_PROFILE_DIR (fst (snd (snd (launch listening_env (no_opts\<lparr>o_port := Some 9222\<rparr>) (start 0)))))
     = None \<and>
   chrome (fst (snd (snd (launch listening_env (no_opts\<lparr>o_port := Some 9222\<rparr>) (start 0)))))
     = None"
proof -
  have h1: "o_port (no_opts\<lparr>o_port := Some 9222\<rparr>) = Some 9222"
    by simp
  have h2: "(9222::nat) \<noteq> 0"
    by simp
  have h3: "connect listening_env 0 (Some 9222) = Connected"
    by (simp add: listening_env_def)
  show ?thesis
    using C2_reuse_path [OF h1 h2 h3 launch_collapse]
    by (simp add: launch_defs concrete_defs)
qed

section \<open>Killing\<close>

text \<open>
  C3. Kill is idempotent. After a first call, whether it has run to the end or only its
  executor has run and the promise is still waiting for the subprocess to close, a second
  call resolves, in any environment; and on an instance that never spawned a subprocess
  kill resolves at once and changes nothing.
\<close>

theorem C3_kill_idempotent:
  "fst (kill en2 (fst (snd (kill en L w))) w2) = Resolved () \<and>
   fst (kill en2 (fst (snd (kill_executor en L w))) w2) = Resolved () \<and>
   kill en (new_Launcher opts) w = (Resolved (), new_Launcher opts, w)"
  by (simp add: kill_no_chrome kill_chrome kill_executor_chrome new_Launcher_def)

section \<open>Unsupported platforms\<close>

text \<open>
  C4, as the code has it. On a platform outside darwin, linux and win32 no workspace
  file is ever made. When the requested port is 0 the launch is rejected with the
  unsupported-platform error and no connection is attempted. When a port is requested,
  the reuse check comes first and makes one connection: if it connects the launch
  resolves, and only if it fails is the launch rejected with the unsupported-platform
  error.
\<close>

theorem C4_unsupported_platform:
  assumes "platform en \<notin> set SUPPORTED_PLATFORMS"
      and "launch en opts (start a) = (r, opts', L, w')"
  shows "filter creates_file (events w') = [] \<and>
         filter is_probe (events w') =
           (if defaults (o_port opts) 0 = 0 then []
            else [CreateConnection (Some (defaults (o_port opts) 0))]) \<and>
         r = (if defaults (o_port opts) 0 \<noteq> 0 \<and>
                 connect en a (Some (defaults (o_port opts) 0)) = Connected
              then Resolved \<lparr>lc_pid = None, lc_port = Some (defaults (o_port opts) 0)\<rparr>
              else Rejected (Error (''Platform '' @ platform en @ '' is not supported'')))"
proof (cases "defaults (o_handleSIGINT opts) True")
  case True
  with assms show ?thesis
    by (auto simp: launch_defs split: conn.splits if_splits)
next
  case False
  with assms show ?thesis
    by (auto simp: launch_defs split: conn.splits if_splits)
qed

theorem C4_unsupported_platform_witness:
  "filter creates_file
     (events (snd (snd (snd (launch (linux_env\<lparr>platform := ''freebsd''\<rparr>) no_opts (start 0))))))
     = [] \<and>
   filter is_probe
     (events (snd (snd (snd (launch (linux_env\<lparr>platform := ''freebsd''\<rparr>) no_opts (start 0))))))
     = [] \<and>
   fst (launch (linux_env\<lparr>platform := ''freebsd''\<rparr>) no_opts (start 0))
     = Rejected (Error ''Platform freebsd is not supported'')"
proof -
  have h1: "platform (linux_env\<lparr>platform := ''freebsd''\<rparr>) \<notin> set SUPPORTED_PLATFORMS"
    by (simp add: SUPPORTED_PLATFORMS_def)
  have z: "defaults (o_port no_opts) 0 = (0::nat)"
    by (simp add: no_opts_def defaults_def)
  show ?thesis
    using C4_unsupported_platform [OF h1 launch_collapse] by (simp add: z)
qed

text \<open>
  The claim as stated fails: on FreeBSD, with port 9222 requested and a listener on it,
  a connection is made and the launch resolves.
\<close>

theorem C4_counterexample:
  "platform (listening_env\<lparr>platform := ''freebsd''\<rparr>) \<notin> set SUPPORTED_PLATFORMS \<and>
   fst (launch (listening_env\<lparr>platform := ''freebsd''\<rparr>) (no_opts\<lparr>o_port := Some 9222\<rparr>) (start 0))
     = Resolved \<lparr>lc_pid = None, lc_port = Some 9222\<rparr> \<and>
   filter is_probe (events (snd (snd (snd
       (launch (listening_env\<lparr>platform := ''freebsd''\<rparr>) (no_opts\<lparr>o_port := Some 9222\<rparr>) (start 0))))))
     = [CreateConnection (Some 9222)]"
  by (simp add: launch_defs concrete_defs)

section \<open>The flag sequence\<close>

text \<open>
  C5, as the code has it. When the requested port is 0 and the launch resolves, the
  port source gave the port that the handle returns; exactly one subprocess was spawned,
  and its flag sequence is, in this order, the default flags, the debugging-port flag for
  that port, the user-data-dir flag, the sandbox flag on Linux only, the caller's flags,
  and the starting URL last. The launcher adds one debugging-port flag and removes none:
  the flags of that kind in the sequence are those of the default set, then the
  launcher's, then those among the caller's flags and the URL. So the launcher's is the
  only one exactly when the defaults, the caller's flags and the URL have none.
\<close>

theorem C5_flag_sequence:
  assumes zero: "defaults (o_port opts) 0 = 0"
      and run: "launch en opts (start a) = (Resolved h, opts', L, w')"
  shows "(\<exists>p. getRandomPort en = Inr p \<and> lc_port h = Some p) \<and>
         spawned_flags (events w') = [assembled_flags en opts (lc_port h)] \<and>
         filter is_port_flag (assembled_flags en opts (lc_port h)) =
           filter is_port_flag (DEFAULT_FLAGS en) @ [port_flag (lc_port h)]
           @ filter is_port_flag
               (defaults (o_chromeFlags opts) [] @ [defaults (o_startingUrl opts) ''about:blank''])"
proof -
  have fl: "filter is_port_flag (assembled_flags en opts (lc_port h)) =
           filter is_port_flag (DEFAULT_FLAGS en) @ [port_flag (lc_port h)]
           @ filter is_port_flag
               (defaults (o_chromeFlags opts) [] @ [defaults (o_startingUrl opts) ''about:blank''])"
    by (simp add: assembled_flags_def)
  show ?thesis
  proof (cases "defaults (o_handleSIGINT opts) True")
    case True
    with zero run show ?thesis
      unfolding fl
      by (auto simp: launch_defs wait_spawned_flags assembled_flags_def flags_def tpl_str_def
          split: if_splits option.splits sum.splits outcome.splits)
  next
    case False
    with zero run show ?thesis
      unfolding fl
      by (auto simp: launch_defs wait_spawned_flags assembled_flags_def flags_def tpl_str_def
          split: if_splits option.splits sum.splits outcome.splits)
  qed
qed

theorem C5_flag_sequence_witness:
  "getRandomPort listening_env = Inr 9222 \<and>
   fst (launch listening_env no_opts (start 0))
     = Resolved \<lparr>lc_pid = Some 4242, lc_port = Some 9222\<rparr> \<and>
   spawned_flags (events (snd (snd (snd (launch listening_env no_opts (start 0))))))
     = [[''--disable-translate'', ''--no-first-run'', ''--remote-debugging-port=9222'',
         ''--user-data-dir=/tmp/lighthouse.1'', ''--disable-setuid-sandbox'', ''about:blank'']] \<and>
   filter is_port_flag
       [''--disable-translate'', ''--no-first-run'', ''--remote-debugging-port=9222'',
        ''--user-data-dir=/tmp/lighthouse.1'', ''--disable-setuid-sandbox'', ''about:blank'']
     = [''--remote-debugging-port=9222'']"
proof -
  have z: "defaults (o_port no_opts) 0 = (0::nat)"
    by (simp add: no_opts_def defaults_def)
  have r: "fst (launch listening_env no_opts (start 0)) = Resolved \<lparr>lc_pid = Some 4242, lc_port = Some 9222\<rparr>"
    by (simp add: launch_defs concrete_defs wait_connected)
  have run: "launch listening_env no_opts (start 0) =
     (Resolved \<lparr>lc_pid = Some 4242, lc_port = Some 9222\<rparr>,
      fst (snd (launch listening_env no_opts (start 0))),
      fst (snd (snd (launch listening_env no_opts (start 0)))),
      snd (snd (snd (launch listening_env no_opts (start 0)))))"
    using launch_collapse [of listening_env no_opts "start 0"] by (simp only: r)
  have fl: "assembled_flags listening_env no_opts (Some 9222) =
      [''--disable-translate'', ''--no-first-run'', ''--remote-debugging-port=9222'',
       ''--user-data-dir=/tmp/lighthouse.1'', ''--disable-setuid-sandbox'', ''about:blank'']"
    by (simp add: assembled_flags_def concrete_defs port_flag_def dir_flag_def tpl_nat_def
        tpl_str_def show_nat_9222)
  show ?thesis
    using C5_flag_sequence [OF z run] by (simp add: fl r is_port_flag_def)
qed

text \<open>
  The claim as stated fails: when the caller's flags hold a debugging-port flag (here for
  the very port the port source gives), the sequence passed to the subprocess has two.
\<close>

theorem C5_counterexample:
  "fst (launch listening_env (no_opts\<lparr>o_chromeFlags := Some [''--remote-debugging-port=9222'']\<rparr>) (start 0))
     = Resolved \<lparr>lc_pid = Some 4242, lc_port = Some 9222\<rparr> \<and>
   spawned_flags (events (snd (snd (snd
       (launch listening_env (no_opts\<lparr>o_chromeFlags := Some [''--remote-debugging-port=9222'']\<rparr>) (start 0))))))
     = [[''--disable-translate'', ''--no-first-run'', ''--remote-debugging-port=9222'',
         ''--user-data-dir=/tmp/lighthouse.1'', ''--disable-setuid-sandbox'',
         ''--remote-debugging-port=9222'', ''about:blank'']]"
  by (simp add: launch_defs concrete_defs wait_connected flags_def port_flag_def dir_flag_def
      tpl_nat_def tpl_str_def show_nat_9222 show_nat_4242)

section \<open>No installation\<close>

text \<open>
  C6. If the finder is called during a launch and returns the empty sequence, the launch
  is rejected with the error \<^verbatim>\<open>No Chrome Installations Found\<close>, and the port source is
  never called.
\<close>

theorem C6_no_installation:
  assumes empty: "chromeFinder en (platform en) = Some []"
      and run: "launch en opts (start a) = (r, opts', L, w')"
      and asked: "FindChrome (platform en) \<in> set (events w')"
  shows "r = Rejected (Error ''No Chrome Installations Found'') \<and>
         GetRandomPort \<notin> set (events w')"
proof (cases "defaults (o_handleSIGINT opts) True")
  case True
  with assms show ?thesis
    by (auto simp: launch_defs wait_member SIGINT_def
        split: conn.splits if_splits option.splits sum.splits outcome.splits)
next
  case False
  with assms show ?thesis
    by (auto simp: launch_defs wait_member SIGINT_def
        split: conn.splits if_splits option.splits sum.splits outcome.splits)
qed

theorem C6_no_installation_witness:
  "fst (launch (linux_env\<lparr>chromeFinder := (\<lambda>pf. Some [])\<rparr>) no_opts (start 0))
     = Rejected (Error ''No Chrome Installations Found'') \<and>
   GetRandomPort \<notin> set (events (snd (snd (snd
       (launch (linux_env\<lparr>chromeFinder := (\<lambda>pf. Some [])\<rparr>) no_opts (start 0))))))"
proof -
  have h1: "chromeFinder (linux_env\<lparr>chromeFinder := (\<lambda>pf. Some [])\<rparr>)
              (platform (linux_env\<lparr>chromeFinder := (\<lambda>pf. Some [])\<rparr>)) = Some []"
    by simp
  have h3: "FindChrome (platform (linux_env\<lparr>chromeFinder := (\<lambda>pf. Some [])\<rparr>))
              \<in> set (events (snd (snd (snd
                  (launch (linux_env\<lparr>chromeFinder := (\<lambda>pf. Some [])\<rparr>) no_opts (start 0))))))"
    by (simp add: launch_defs concrete_defs)
  show ?thesis
    using C6_no_installation [OF h1 launch_collapse h3] by simp
qed

section \<open>Killing a spawned subprocess\<close>

text \<open>
  C7. With a subprocess, kill is never rejected, whatever the OS-level termination call
  does: when that call throws, one warning with its message is logged and nothing else
  changes. Kill resolves exactly when the subprocess reports \<^verbatim>\<open>close\<close>, and then the
  record shows the order: the termination attempt, the close notification, the teardown
  of the workspace, and nothing after it.
\<close>

theorem C7_kill_swallows:
  assumes "chrome L = Some c" and "kill en L w = (r, L1, w1)"
  shows "(\<forall>e. r \<noteq> Rejected e) \<and>
         (r = Resolved ()) = reports_close en (cp_pid c) \<and>
         events w1 = events w @ termination_events en c
            @ (if reports_close en (cp_pid c)
               then [ChildClosed (cp_pid c)] @ teardown_events L else []) \<and>
         filter is_LogWarn (events w1) = filter is_LogWarn (events w)
            @ (case kill_throws en (cp_pid c) of
                 Some msg \<Rightarrow> [LogWarn (''Chrome could not be killed '' @ msg)]
               | None \<Rightarrow> [])"
proof (cases "reports_close en (cp_pid c)")
  case True
  with assms have "r = Resolved ()"
    and "w1 = snd (destroyTmp en (L\<lparr>chrome := None\<rparr>)
                (emit (ChildClosed (cp_pid c)) (w\<lparr>events := events w @ termination_events en c\<rparr>)))"
    by (simp_all add: kill_some split: prod.splits)
  with True show ?thesis
    by (simp add: destroyTmp_events teardown_events_chrome termination_warn teardown_no_warn)
next
  case False
  with assms show ?thesis
    by (auto simp: kill_some termination_warn)
qed

theorem C7_kill_swallows_witness:
  "fst (kill (linux_env\<lparr>kill_throws := (\<lambda>p. Some ''kill ESRCH'')\<rparr>) spawned_instance (start 0))
     = Resolved () \<and>
   events (snd (snd (kill (linux_env\<lparr>kill_throws := (\<lambda>p. Some ''kill ESRCH'')\<rparr>)
                      spawned_instance (start 0))))
     = [OnClose (Some 4242), LogLog ''Killing all Chrome Instances'', ProcessKill (Some (- 4242)),
        LogWarn ''Chrome could not be killed kill ESRCH'', ChildClosed (Some 4242),
        LogVerbose ''Removing /tmp/lighthouse.1'', CloseSync 3, CloseSync 4,
        Rimraf ''/tmp/lighthouse.1'']"
proof -
  have h1: "chrome spawned_instance = Some \<lparr>cp_pid = Some 4242\<rparr>"
    by (simp add: spawned_instance_def)
  show ?thesis
    using C7_kill_swallows [OF h1 kill_collapse,
        of "linux_env\<lparr>kill_throws := (\<lambda>p. Some ''kill ESRCH'')\<rparr>" "start 0"]
    by (simp add: concrete_defs start_def termination_events_def teardown_events_def
        close_events_def kill_command_def isWindows_def)
qed

section \<open>The handle\<close>

text \<open>
  C8. The handle of a successful launch should expose a defined process id. On the reuse
  path it does not: with port 9222 requested and a listener on it, the launch resolves
  with a handle whose pid is \<^verbatim>\<open>undefined\<close>, although \<^verbatim>\<open>LaunchedChrome\<close> declares
  \<^verbatim>\<open>pid: number\<close> and the entry point asserts \<^verbatim>\<open>instance.pid!\<close>.
\<close>

theorem C8_reuse_handle_has_no_pid:
  "fst (launch listening_env (no_opts\<lparr>o_port := Some 9222\<rparr>) (start 0))
     = Resolved \<lparr>lc_pid = None, lc_port = Some 9222\<rparr>"
  by (simp add: launch_defs concrete_defs)

section \<open>The options object\<close>

text \<open>
  C9, as the code has it. The entry point writes one field of the caller's options
  object: \<^verbatim>\<open>handleSIGINT\<close>, which it sets to its value or, when absent, to \<^verbatim>\<open>true\<close>. Every
  other field is left as it was, and a \<^verbatim>\<open>handleSIGINT\<close> that was present keeps its value.
\<close>

theorem C9_options_after_launch:
  "fst (snd (launch en opts w)) =
     opts\<lparr>o_handleSIGINT := Some (defaults (o_handleSIGINT opts) True)\<rparr>"
  by (simp add: launch_def Let_def split: prod.splits outcome.splits)

text \<open>
  The claim as stated fails: options without \<^verbatim>\<open>handleSIGINT\<close> come back with
  \<^verbatim>\<open>handleSIGINT\<close> set to \<^verbatim>\<open>true\<close>.
\<close>

theorem C9_counterexample:
  "o_handleSIGINT no_opts = None \<and>
   o_handleSIGINT (fst (snd (launch linux_env no_opts (start 0)))) = Some True"
  by (simp add: launch_def no_opts_def defaults_def Let_def split: prod.splits outcome.splits)

section \<open>The subprocess reference after kill\<close>

text \<open>
  C10. After a kill on an instance with a subprocess, the instance has no subprocess
  reference, whether or not the OS-level termination call threw and whether or not the
  subprocess ever reported \<^verbatim>\<open>close\<close>; every later kill, in any environment, resolves at once
  and leaves the instance and the record of calls as they were: no termination is
  attempted and nothing is torn down again.
\<close>

theorem C10_reference_cleared:
  assumes "chrome L = Some c" and "kill en L w = (r, L1, w1)"
  shows "chrome L1 = None \<and> kill en2 L1 w2 = (Resolved (), L1, w2)"
proof -
  have "chrome (fst (snd (kill en L w))) = None"
    by (rule kill_chrome)
  with assms(2) have "chrome L1 = None"
    by simp
  then show ?thesis
    by (simp add: kill_no_chrome)
qed

theorem C10_reference_cleared_witness:
  "chrome (fst (snd (kill (linux_env\<lparr>kill_throws := (\<lambda>p. Some ''kill ESRCH'')\<rparr>)
                       spawned_instance (start 0)))) = None \<and>
   kill linux_env
     (fst (snd (kill (linux_env\<lparr>kill_throws := (\<lambda>p. Some ''kill ESRCH'')\<rparr>)
                  spawned_instance (start 0))))
     (start 0)
   = (Resolved (),
      fst (snd (kill (linux_env\<lparr>kill_throws := (\<lambda>p. Some ''kill ESRCH'')\<rparr>)
                   spawned_instance (start 0))),
      start 0)"
proof -
  have h1: "chrome spawned_instance = Some \<lparr>cp_pid = Some 4242\<rparr>"
    by (simp add: spawned_instance_def)
  show ?thesis
    using C10_reference_cleared [OF h1 kill_collapse]
    by simp
qed

end
